theory Spec2Isabelle
  imports Complex_Main "HOL-Library.AList"
begin

section \<open>Token lifecycle manager\<close>

text \<open>
  A shallow embedding of \<^verbatim>\<open>splatnet3_scraper/auth/token_manager.py\<close> and of the
  \<^verbatim>\<open>retry\<close> decorator of \<^verbatim>\<open>splatnet3_scraper/utils.py\<close>.

  Conventions of the embedding:
  \<^item> Python floats holding times (seconds since the epoch) are real numbers; the rounding
    of floating-point addition is not modelled.
  \<^item> A Python \<^verbatim>\<open>dict\<close> is an association list with distinct keys, in insertion order;
    \<^verbatim>\<open>d[k] = v\<close> is \<open>AList.update k v d\<close>, which keeps the position of an existing key
    and appends a new one, as Python does.
  \<^item> An exception is the left injection of a sum; the mutated state is returned next to
    it, since a Python caller that catches the exception sees the mutations made so far.
  \<^item> Everything outside the manager (the remote endpoints behind the NSO collaborator,
    the liveness probe, the clock) answers the n-th call of its kind with the n-th entry
    of a fixed script, and every call is appended to a log.
\<close>

subsection \<open>Constants\<close>

text \<open>
  Modelled from the spec: the module \<^verbatim>\<open>splatnet3_scraper.constants\<close> is absent from the
  sources. The spec names three credential kinds (Session, Account, Access); the source
  refers to them as \<^verbatim>\<open>TOKENS.SESSION_TOKEN\<close>, \<^verbatim>\<open>TOKENS.GTOKEN\<close> and
  \<^verbatim>\<open>TOKENS.BULLET_TOKEN\<close>. They are three distinct strings; the proofs below use nothing
  but their being distinct.
\<close>

definition SESSION_TOKEN :: string where
  "SESSION_TOKEN = ''session_token''"

definition GTOKEN :: string where
  "GTOKEN = ''gtoken''"

definition BULLET_TOKEN :: string where
  "BULLET_TOKEN = ''bullet_token''"

text \<open>The default of \<^verbatim>\<open>TOKEN_EXPIRATIONS.get(token_type, 1e10)\<close>.\<close>

definition DEFAULT_EXPIRATION :: real where
  "DEFAULT_EXPIRATION = 10000000000"

subsection \<open>Exceptions\<close>

datatype exn =
    ValueError
  | KeyError
  | NintendoException
  | SplatNetException
  | OtherException string

subsection \<open>The outside world\<close>

type_synonym user_info = "(string \<times> string) list"

text \<open>
  The calls the manager makes on its collaborators, with the arguments it passes:
  \<^verbatim>\<open>nso.get_gtoken(nso.session_token)\<close>,
  \<^verbatim>\<open>nso.get_bullet_token(nso._gtoken, nso._user_info)\<close> and the
  \<^verbatim>\<open>requests.post\<close> of the \<^verbatim>\<open>HomeQuery\<close> in \<^verbatim>\<open>test_tokens\<close> (bullet token, language,
  gtoken cookie).
\<close>

datatype call =
    GetGtoken "string option"
  | GetBulletToken "string option" "user_info option"
  | PostHomeQuery string string string

text \<open>
  The environment of a run. \<open>TOKEN_EXPIRATIONS\<close> is the table of that name from the
  absent constants module, taken as a parameter. \<open>gtoken_script\<close>, \<open>bullet_script\<close>
  and \<open>probe_script\<close> give the answer of the n-th call of \<^verbatim>\<open>NSO.get_gtoken\<close> (the gtoken
  and the user info the collaborator stores in \<^verbatim>\<open>nso._user_info\<close>, or an exception),
  of \<^verbatim>\<open>NSO.get_bullet_token\<close> and of the liveness probe (the HTTP status code);
  \<open>clock\<close> gives the n-th reading of \<^verbatim>\<open>time.time()\<close>; \<open>version\<close> is
  \<^verbatim>\<open>splatnet3_scraper.__version__\<close>.
\<close>

record env =
  TOKEN_EXPIRATIONS :: "string \<rightharpoonup> real"
  gtoken_script :: "nat \<Rightarrow> exn + (string \<times> user_info option)"
  bullet_script :: "nat \<Rightarrow> exn + string"
  probe_script :: "nat \<Rightarrow> exn + nat"
  clock :: "nat \<Rightarrow> real"
  version :: string

record world =
  calls :: "call list"
  clock_reads :: nat

fun is_GetGtoken :: "call \<Rightarrow> bool" where
  "is_GetGtoken (GetGtoken _) = True"
| "is_GetGtoken _ = False"

fun is_GetBulletToken :: "call \<Rightarrow> bool" where
  "is_GetBulletToken (GetBulletToken _ _) = True"
| "is_GetBulletToken _ = False"

fun is_PostHomeQuery :: "call \<Rightarrow> bool" where
  "is_PostHomeQuery (PostHomeQuery _ _ _) = True"
| "is_PostHomeQuery _ = False"

definition gtoken_calls :: "world \<Rightarrow> nat" where
  "gtoken_calls w = length (filter is_GetGtoken (calls w))"

definition bullet_calls :: "world \<Rightarrow> nat" where
  "bullet_calls w = length (filter is_GetBulletToken (calls w))"

definition probe_calls :: "world \<Rightarrow> nat" where
  "probe_calls w = length (filter is_PostHomeQuery (calls w))"

text \<open>\<^verbatim>\<open>time.time()\<close>: the next reading of the clock.\<close>

definition time_time :: "env \<Rightarrow> world \<Rightarrow> real \<times> world" where
  "time_time e w = (clock e (clock_reads w), w\<lparr>clock_reads := Suc (clock_reads w)\<rparr>)"

subsection \<open>Token\<close>

record Token =
  token :: string
  token_type :: string
  timestamp :: real
  expiration :: real

text \<open>\<^verbatim>\<open>Token.__init__\<close>\<close>

definition Token_init :: "(string \<rightharpoonup> real) \<Rightarrow> string \<Rightarrow> string \<Rightarrow> real \<Rightarrow> Token" where
  "Token_init expirations tok ty ts =
     \<lparr>token = tok, token_type = ty, timestamp = ts,
      expiration = (case expirations ty of None \<Rightarrow> DEFAULT_EXPIRATION | Some d \<Rightarrow> d) + ts\<rparr>"

text \<open>
  \<^verbatim>\<open>Token.is_valid\<close>. The value is a \<^verbatim>\<open>str\<close> by its annotation, so the test
  \<^verbatim>\<open>self.token is not None\<close> always passes.
\<close>

definition is_valid :: "Token \<Rightarrow> bool" where
  "is_valid t = (token t \<noteq> '''')"

text \<open>\<^verbatim>\<open>Token.time_left\<close> and \<^verbatim>\<open>Token.is_expired\<close>, at the clock reading \<open>now\<close>.\<close>

definition time_left :: "Token \<Rightarrow> real \<Rightarrow> real" where
  "time_left t now = expiration t - now"

definition is_expired :: "Token \<Rightarrow> real \<Rightarrow> bool" where
  "is_expired t now = (time_left t now \<le> 0)"

subsection \<open>The NSO collaborator\<close>

text \<open>
  The class \<^verbatim>\<open>splatnet3_scraper.auth.nso.NSO\<close> is absent from the sources. The manager
  reads and writes three of its attributes, \<^verbatim>\<open>_session_token\<close>, \<^verbatim>\<open>_gtoken\<close> and
  \<^verbatim>\<open>_user_info\<close>, and calls \<^verbatim>\<open>get_gtoken\<close> and \<^verbatim>\<open>get_bullet_token\<close> on it.
\<close>

record NSO =
  nso_session_token :: "string option"
  nso_gtoken :: "string option"
  nso_user_info :: "user_info option"

text \<open>
  Modelled from the spec: \<^verbatim>\<open>NSO.new_instance\<close> is absent from the sources; a fresh
  collaborator holds no credential and no user info.
\<close>

definition NSO_new_instance :: NSO where
  "NSO_new_instance = \<lparr>nso_session_token = None, nso_gtoken = None, nso_user_info = None\<rparr>"

text \<open>
  Modelled from the spec: \<^verbatim>\<open>NSO.get_gtoken\<close> is absent from the sources. By the spec
  (4.2, Account sequence) it is a request to the remote minting endpoint that, on
  success, returns the Account credential and captures the locale and region data. The
  manager evaluates \<^verbatim>\<open>self.nso.get_gtoken(self.nso.session_token)\<close>; the property
  \<^verbatim>\<open>session_token\<close> belongs to the absent class too, so the whole expression is one
  logged call on the collaborator, carrying its \<^verbatim>\<open>_session_token\<close>. The answer is the
  next entry of the script; an exception leaves the collaborator as it was, a successful
  answer stores its user info.
\<close>

definition NSO_get_gtoken :: "env \<Rightarrow> NSO \<Rightarrow> world \<Rightarrow> (exn + string) \<times> NSO \<times> world" where
  "NSO_get_gtoken e n w =
     (let w' = w\<lparr>calls := calls w @ [GetGtoken (nso_session_token n)]\<rparr> in
      case gtoken_script e (gtoken_calls w) of
        Inl x \<Rightarrow> (Inl x, n, w')
      | Inr (g, ui) \<Rightarrow> (Inr g, n\<lparr>nso_user_info := ui\<rparr>, w'))"

text \<open>
  Modelled from the spec: \<^verbatim>\<open>NSO.get_bullet_token\<close> is absent from the sources. By the
  spec it is a plain request and response: the call is logged with its arguments and
  answered by the next entry of the script.
\<close>

definition NSO_get_bullet_token ::
  "env \<Rightarrow> string option \<Rightarrow> user_info option \<Rightarrow> world \<Rightarrow> (exn + string) \<times> world" where
  "NSO_get_bullet_token e g ui w =
     (bullet_script e (bullet_calls w), w\<lparr>calls := calls w @ [GetBulletToken g ui]\<rparr>)"


subsection \<open>TokenManager\<close>

record TokenManager =
  nso :: NSO
  tokens :: "(string \<times> Token) list"
  data :: "(string \<times> string) list"
  origin :: "(string \<times> string option) option"

type_synonym state = "TokenManager \<times> world"

text \<open>\<^verbatim>\<open>TokenManager.__init__\<close>, given the collaborator.\<close>

definition TokenManager_init :: "NSO \<Rightarrow> TokenManager" where
  "TokenManager_init n = \<lparr>nso = n, tokens = [], data = [], origin = None\<rparr>"


text \<open>
  \<^verbatim>\<open>TokenManager.add_token\<close>. The first argument is a string (\<open>Inl\<close>) or a
  \<^verbatim>\<open>Token\<close> object (\<open>Inr\<close>); \<open>None\<close> stands for an omitted \<^verbatim>\<open>token_type\<close> or
  \<^verbatim>\<open>timestamp\<close>.
\<close>

definition add_token ::
  "env \<Rightarrow> string + Token \<Rightarrow> string option \<Rightarrow> real option \<Rightarrow> state \<Rightarrow> (exn + unit) \<times> state" where
  "add_token e tok ty ts s =
     (case s of (m, w) \<Rightarrow>
      (case tok of
         Inr t \<Rightarrow>
           (let m1 = m\<lparr>tokens := AList.update (token_type t) t (tokens m)\<rparr>;
                m2 = (if token_type t = GTOKEN
                      then m1\<lparr>nso := (nso m1)\<lparr>nso_gtoken := Some (token t)\<rparr>\<rparr> else m1)
            in (Inr (), m2, w))
       | Inl v \<Rightarrow>
           (case ty of
              None \<Rightarrow> (Inl ValueError, m, w)
            | Some k \<Rightarrow>
                (let (stamp, w') = (case ts of None \<Rightarrow> time_time e w | Some x \<Rightarrow> (x, w));
                     token_obj = Token_init (TOKEN_EXPIRATIONS e) v k stamp;
                     m1 = (if token_type token_obj = GTOKEN
                           then m\<lparr>nso := (nso m)\<lparr>nso_gtoken := Some (token token_obj)\<rparr>\<rparr> else m)
                 in (Inr (), m1\<lparr>tokens := AList.update k token_obj (tokens m1)\<rparr>, w')))))"

text \<open>
  \<^verbatim>\<open>TokenManager.get\<close>, in its two overloads: \<open>get\<close> returns the value
  (\<^verbatim>\<open>full_token=False\<close>), \<open>get_full\<close> the \<^verbatim>\<open>Token\<close> object (\<^verbatim>\<open>full_token=True\<close>).
\<close>

definition get_full :: "TokenManager \<Rightarrow> string \<Rightarrow> exn + Token" where
  "get_full m ty = (case map_of (tokens m) ty of None \<Rightarrow> Inl ValueError | Some t \<Rightarrow> Inr t)"

definition get :: "TokenManager \<Rightarrow> string \<Rightarrow> exn + string" where
  "get m ty = (case map_of (tokens m) ty of None \<Rightarrow> Inl ValueError | Some t \<Rightarrow> Inr (token t))"

text \<open>\<^verbatim>\<open>TokenManager.token_is_valid\<close>\<close>

definition token_is_valid :: "TokenManager \<Rightarrow> string \<Rightarrow> bool" where
  "token_is_valid m ty = (case get_full m ty of Inl x \<Rightarrow> False | Inr t \<Rightarrow> is_valid t)"

text \<open>\<^verbatim>\<open>TokenManager.add_session_token\<close>\<close>

definition add_session_token :: "env \<Rightarrow> string \<Rightarrow> state \<Rightarrow> (exn + unit) \<times> state" where
  "add_session_token e v s =
     (case add_token e (Inl v) (Some SESSION_TOKEN) None s of
        (Inl x, s') \<Rightarrow> (Inl x, s')
      | (Inr _, m', w') \<Rightarrow> (Inr (), m'\<lparr>nso := (nso m')\<lparr>nso_session_token := Some v\<rparr>\<rparr>, w'))"

text \<open>
  \<^verbatim>\<open>TokenManager.generate_gtoken\<close>. Both look-ups in the user info come before the two
  assignments to \<^verbatim>\<open>_data\<close>; a \<^verbatim>\<open>KeyError\<close> or \<^verbatim>\<open>TypeError\<close> of either becomes a
  \<^verbatim>\<open>NintendoException\<close>.
\<close>

definition generate_gtoken :: "env \<Rightarrow> state \<Rightarrow> (exn + unit) \<times> state" where
  "generate_gtoken e s =
     (case s of (m, w) \<Rightarrow>
      if map_of (tokens m) SESSION_TOKEN = None then (Inl ValueError, m, w)
      else
        (case NSO_get_gtoken e (nso m) w of
           (Inl x, n', w') \<Rightarrow> (Inl x, m\<lparr>nso := n'\<rparr>, w')
         | (Inr g, n', w') \<Rightarrow>
             (case add_token e (Inl g) (Some GTOKEN) None (m\<lparr>nso := n'\<rparr>, w') of
                (Inl x, s2) \<Rightarrow> (Inl x, s2)
              | (Inr _, m2, w2) \<Rightarrow>
                  (case nso_user_info (nso m2) of
                     None \<Rightarrow> (Inl NintendoException, m2, w2)
                   | Some ui \<Rightarrow>
                       (case map_of ui ''country'' of
                          None \<Rightarrow> (Inl NintendoException, m2, w2)
                        | Some country \<Rightarrow>
                            (case map_of ui ''language'' of
                               None \<Rightarrow> (Inl NintendoException, m2, w2)
                             | Some language \<Rightarrow>
                                 (Inr (),
                                  m2\<lparr>data := AList.update ''language'' language
                                              (AList.update ''country'' country (data m2))\<rparr>,
                                  w2)))))))"

text \<open>
  The decorator \<^verbatim>\<open>retry(times, exceptions)\<close> of \<^verbatim>\<open>utils.py\<close>: up to \<open>times\<close> attempts
  whose caught exception is swallowed, then one last attempt whose exception propagates.
  \<open>catches\<close> tells which exceptions the \<^verbatim>\<open>except\<close> clause catches. The message
  that a swallowed attempt writes to the logger is not modelled.
\<close>

fun retry :: "nat \<Rightarrow> (exn \<Rightarrow> bool) \<Rightarrow> ('s \<Rightarrow> (exn + 'a) \<times> 's) \<Rightarrow> 's \<Rightarrow> (exn + 'a) \<times> 's" where
  "retry 0 catches func s = func s"
| "retry (Suc n) catches func s =
     (case func s of
        (Inl x, s') \<Rightarrow> if catches x then retry n catches func s' else (Inl x, s')
      | (Inr r, s') \<Rightarrow> (Inr r, s'))"

text \<open>The body of \<^verbatim>\<open>TokenManager.generate_bullet_token\<close>, before decoration.\<close>

definition generate_bullet_token_func :: "env \<Rightarrow> state \<Rightarrow> (exn + unit) \<times> state" where
  "generate_bullet_token_func e s =
     (case s of (m, w) \<Rightarrow>
      if map_of (tokens m) SESSION_TOKEN = None then (Inl ValueError, m, w)
      else
        (case (if map_of (tokens m) GTOKEN = None \<or> nso_user_info (nso m) = None
               then generate_gtoken e (m, w) else (Inr (), m, w)) of
           (Inl x, s1) \<Rightarrow> (Inl x, s1)
         | (Inr _, m1, w1) \<Rightarrow>
             (case NSO_get_bullet_token e (nso_gtoken (nso m1)) (nso_user_info (nso m1)) w1 of
                (Inl x, w2) \<Rightarrow> (Inl x, m1, w2)
              | (Inr bullet_token, w2) \<Rightarrow>
                  (case add_token e (Inl bullet_token) (Some BULLET_TOKEN) None (m1, w2) of
                     (Inl x, s3) \<Rightarrow> (Inl x, s3)
                   | (Inr _, m3, w3) \<Rightarrow>
                       (case get_full m3 BULLET_TOKEN of
                          Inl x \<Rightarrow> (Inl x, m3, w3)
                        | Inr bullet \<Rightarrow>
                            if \<not> is_valid bullet then (Inl SplatNetException, m3, w3)
                            else (Inr (), m3, w3))))))"

text \<open>
  \<^verbatim>\<open>TokenManager.generate_bullet_token\<close>, decorated with
  \<^verbatim>\<open>@retry(times=1, exceptions=SplatNetException)\<close>.
\<close>

definition generate_bullet_token :: "env \<Rightarrow> state \<Rightarrow> (exn + unit) \<times> state" where
  "generate_bullet_token e = retry 1 (\<lambda>x. x = SplatNetException) (generate_bullet_token_func e)"



subsection \<open>Config files\<close>







subsection \<open>Sequences of keychain operations\<close>

text \<open>
  The operations on the keychain that a caller can invoke, in any order. An exception
  ends one operation, not the sequence: the caller may catch it and go on with the
  manager as the failed operation left it.
\<close>

datatype operation =
    Add_token "string + Token" "string option" "real option"
  | Add_session_token string
  | Generate_gtoken
  | Generate_bullet_token

fun run_operation :: "env \<Rightarrow> operation \<Rightarrow> state \<Rightarrow> (exn + unit) \<times> state" where
  "run_operation e (Add_token tok ty ts) s = add_token e tok ty ts s"
| "run_operation e (Add_session_token v) s = add_session_token e v s"
| "run_operation e Generate_gtoken s = generate_gtoken e s"
| "run_operation e Generate_bullet_token s = generate_bullet_token e s"

fun run_operations :: "env \<Rightarrow> operation list \<Rightarrow> state \<Rightarrow> state" where
  "run_operations e [] s = s"
| "run_operations e (x # xs) s = run_operations e xs (snd (run_operation e x s))"

text \<open>
  Every key of the keychain is the \<^verbatim>\<open>token_type\<close> of the token stored under it, and no
  key occurs twice.
\<close>

definition keychain_consistent :: "TokenManager \<Rightarrow> bool" where
  "keychain_consistent m \<longleftrightarrow>
     distinct (map fst (tokens m)) \<and> (\<forall>(k, t) \<in> set (tokens m). token_type t = k)"

subsection \<open>Concrete runs\<close>

text \<open>
  Values for the examples below: an expiration table with the 3600 seconds of the spec's
  scenario for the gtoken, the user info a successful Account derivation captures, an
  environment whose \<^verbatim>\<open>get_gtoken\<close> always succeeds and whose clock advances 5000
  seconds per reading, the world before any call, and two managers: one as
  \<^verbatim>\<open>from_session_token\<close> leaves it, one holding all three credentials, issued at time 0.
\<close>

definition example_expirations :: "string \<rightharpoonup> real" where
  "example_expirations = [GTOKEN \<mapsto> 3600, BULLET_TOKEN \<mapsto> 7200]"

definition example_user_info :: user_info where
  "example_user_info = [(''country'', ''US''), (''language'', ''en-US'')]"

definition example_env :: "(nat \<Rightarrow> exn + string) \<Rightarrow> (nat \<Rightarrow> exn + nat) \<Rightarrow> env" where
  "example_env bullets probes =
     \<lparr>TOKEN_EXPIRATIONS = example_expirations,
      gtoken_script = (\<lambda>n. Inr (''gtoken-new'', Some example_user_info)),
      bullet_script = bullets,
      probe_script = probes,
      clock = (\<lambda>n. 5000 * real n),
      version = ''0.1.0''\<rparr>"

definition world_start :: world where
  "world_start = \<lparr>calls = [], clock_reads = 0\<rparr>"

definition session_manager :: "string \<Rightarrow> TokenManager" where
  "session_manager v =
     \<lparr>nso = \<lparr>nso_session_token = Some v, nso_gtoken = None, nso_user_info = None\<rparr>,
      tokens = [(SESSION_TOKEN, Token_init example_expirations v SESSION_TOKEN 0)],
      data = [],
      origin = Some (''session_token'', None)\<rparr>"

definition full_manager :: TokenManager where
  "full_manager =
     \<lparr>nso = \<lparr>nso_session_token = Some ''sess-abc'', nso_gtoken = Some ''gtoken-old'',
             nso_user_info = Some example_user_info\<rparr>,
      tokens = [(SESSION_TOKEN, Token_init example_expirations ''sess-abc'' SESSION_TOKEN 0),
                (GTOKEN, Token_init example_expirations ''gtoken-old'' GTOKEN 0),
                (BULLET_TOKEN, Token_init example_expirations ''bullet-old'' BULLET_TOKEN 0)],
      data = example_user_info,
      origin = Some (''session_token'', None)\<rparr>"




definition default_env :: env where
  "default_env = example_env (\<lambda>n. Inr ''bullet-new'') (\<lambda>n. Inr 200)"

section \<open>Expiration\<close>

lemma kinds_distinct [simp]:
  "SESSION_TOKEN \<noteq> GTOKEN" "GTOKEN \<noteq> SESSION_TOKEN"
  "SESSION_TOKEN \<noteq> BULLET_TOKEN" "BULLET_TOKEN \<noteq> SESSION_TOKEN"
  "GTOKEN \<noteq> BULLET_TOKEN" "BULLET_TOKEN \<noteq> GTOKEN"
  by (simp_all add: SESSION_TOKEN_def GTOKEN_def BULLET_TOKEN_def)

lemma is_expired_iff: "is_expired t now \<longleftrightarrow> expiration t \<le> now"
  by (simp add: is_expired_def time_left_def)

lemma expiration_Token_init:
  "expiration (Token_init tbl v k ts) = (case tbl k of None \<Rightarrow> DEFAULT_EXPIRATION | Some d \<Rightarrow> d) + ts"
  by (simp add: Token_init_def)

text \<open>
  C6. A credential of kind \<open>k\<close> created at time \<open>ts\<close> has the time to live that
  \<^verbatim>\<open>TOKEN_EXPIRATIONS\<close> tabulates for \<open>k\<close>, or the default. It is not expired at any
  time strictly before \<open>ts + ttl\<close> and expired at every time from \<open>ts + ttl\<close> on. In
  particular, when the gtoken lives 3600 seconds and is created at \<open>T0\<close>, it is not
  expired at \<open>T0 + 3599\<close> and expired at \<open>T0 + 3601\<close>.
\<close>

theorem is_expired_threshold:
  "(\<forall>now. is_expired (Token_init tbl v k ts) now \<longleftrightarrow>
      now \<ge> ts + (case tbl k of None \<Rightarrow> DEFAULT_EXPIRATION | Some d \<Rightarrow> d))
   \<and> (tbl GTOKEN = Some 3600 \<longrightarrow>
        \<not> is_expired (Token_init tbl v GTOKEN T0) (T0 + 3599)
        \<and> is_expired (Token_init tbl v GTOKEN T0) (T0 + 3601))"
  by (auto simp add: is_expired_iff expiration_Token_init split: option.splits)

theorem is_expired_threshold_witness:
  "[GTOKEN \<mapsto> 3600] GTOKEN = Some (3600::real)
   \<and> \<not> is_expired (Token_init [GTOKEN \<mapsto> 3600] ''g'' GTOKEN 1000) (1000 + 3599)
   \<and> is_expired (Token_init [GTOKEN \<mapsto> 3600] ''g'' GTOKEN 1000) (1000 + 3601)"
  using is_expired_threshold [of "[GTOKEN \<mapsto> 3600]" "''g''" GTOKEN 1000 1000]
  by simp

text \<open>
  C4 as stated fails: a session credential does expire. With a table that has no entry
  for the session kind, a session credential created at time 0 is expired at time
  \<open>10\<^sup>1\<^sup>0\<close>, the default that \<^verbatim>\<open>Token.__init__\<close> adds to the timestamp.
\<close>

theorem session_token_expires_counterexample:
  "is_expired (Token_init [GTOKEN \<mapsto> 3600, BULLET_TOKEN \<mapsto> 7200] ''sess-abc'' SESSION_TOKEN 0)
     10000000000"
  by (simp add: is_expired_iff expiration_Token_init DEFAULT_EXPIRATION_def)

text \<open>
  C4, amended. When \<^verbatim>\<open>TOKEN_EXPIRATIONS\<close> has no entry for the session kind, the
  expiration of a session credential is the numeric sentinel \<open>timestamp + 10\<^sup>1\<^sup>0\<close>: the
  credential is not expired at any time before it and is expired from then on.
\<close>

theorem session_token_sentinel:
  "tbl SESSION_TOKEN = None \<Longrightarrow>
   is_expired (Token_init tbl v SESSION_TOKEN ts) now \<longleftrightarrow> now \<ge> ts + 10000000000"
  by (auto simp add: is_expired_iff expiration_Token_init DEFAULT_EXPIRATION_def)

theorem session_token_sentinel_witness:
  "[GTOKEN \<mapsto> 3600::real] SESSION_TOKEN = None
   \<and> \<not> is_expired (Token_init [GTOKEN \<mapsto> 3600] ''sess-abc'' SESSION_TOKEN 5) 10000000004
   \<and> is_expired (Token_init [GTOKEN \<mapsto> 3600] ''sess-abc'' SESSION_TOKEN 5) 10000000005"
  using session_token_sentinel [of "[GTOKEN \<mapsto> 3600]" "''sess-abc''" 5 10000000004]
    session_token_sentinel [of "[GTOKEN \<mapsto> 3600]" "''sess-abc''" 5 10000000005]
  by simp

section \<open>The keychain\<close>

lemma add_token_str_now:
  "add_token e (Inl v) (Some k) None (m, w) =
     (Inr (),
      m\<lparr>nso := (if k = GTOKEN then (nso m)\<lparr>nso_gtoken := Some v\<rparr> else nso m),
        tokens := AList.update k (Token_init (TOKEN_EXPIRATIONS e) v k (clock e (clock_reads w))) (tokens m)\<rparr>,
      w\<lparr>clock_reads := Suc (clock_reads w)\<rparr>)"
  by (simp add: add_token_def time_time_def Token_init_def Let_def)

lemma add_token_str_at:
  "add_token e (Inl v) (Some k) (Some ts) (m, w) =
     (Inr (),
      m\<lparr>nso := (if k = GTOKEN then (nso m)\<lparr>nso_gtoken := Some v\<rparr> else nso m),
        tokens := AList.update k (Token_init (TOKEN_EXPIRATIONS e) v k ts) (tokens m)\<rparr>,
      w)"
  by (simp add: add_token_def Token_init_def Let_def)

lemma add_token_obj:
  "add_token e (Inr t) ty ts (m, w) =
     (Inr (),
      m\<lparr>nso := (if token_type t = GTOKEN then (nso m)\<lparr>nso_gtoken := Some (token t)\<rparr> else nso m),
        tokens := AList.update (token_type t) t (tokens m)\<rparr>,
      w)"
  by (simp add: add_token_def Let_def)

lemma add_token_frame:
  assumes "add_token e tok ty ts (m, w) = (r, m', w')"
  shows "calls w' = calls w" and "data m' = data m" and "origin m' = origin m"
    and "nso_session_token (nso m') = nso_session_token (nso m)"
    and "nso_user_info (nso m') = nso_user_info (nso m)"
  using assms
  by (auto simp add: add_token_def time_time_def Let_def split: sum.splits option.splits if_splits prod.splits)

text \<open>
  C10. \<^verbatim>\<open>add_token\<close> with a string and no \<^verbatim>\<open>token_type\<close> raises \<^verbatim>\<open>ValueError\<close> and
  leaves the manager, its keychain included, and the world as they were.
\<close>

theorem add_token_str_without_type:
  "add_token e (Inl v) None ts (m, w) = (Inl ValueError, m, w)"
  by (simp add: add_token_def)

section \<open>Derivation\<close>

subsection \<open>Counting calls\<close>

lemma gtoken_calls_snoc [simp]:
  "gtoken_calls (w\<lparr>calls := calls w @ [c]\<rparr>) = (if is_GetGtoken c then Suc (gtoken_calls w) else gtoken_calls w)"
  by (simp add: gtoken_calls_def)

lemma bullet_calls_snoc [simp]:
  "bullet_calls (w\<lparr>calls := calls w @ [c]\<rparr>) = (if is_GetBulletToken c then Suc (bullet_calls w) else bullet_calls w)"
  by (simp add: bullet_calls_def)

lemma probe_calls_snoc [simp]:
  "probe_calls (w\<lparr>calls := calls w @ [c]\<rparr>) = (if is_PostHomeQuery c then Suc (probe_calls w) else probe_calls w)"
  by (simp add: probe_calls_def)

lemma calls_counts_clock [simp]:
  "gtoken_calls (w\<lparr>clock_reads := n\<rparr>) = gtoken_calls w"
  "bullet_calls (w\<lparr>clock_reads := n\<rparr>) = bullet_calls w"
  "probe_calls (w\<lparr>clock_reads := n\<rparr>) = probe_calls w"
  by (simp_all add: gtoken_calls_def bullet_calls_def probe_calls_def)

lemma generate_gtoken_no_session:
  "map_of (tokens m) SESSION_TOKEN = None \<Longrightarrow> generate_gtoken e (m, w) = (Inl ValueError, m, w)"
  by (simp add: generate_gtoken_def)

lemma generate_gtoken_success:
  assumes "map_of (tokens m) SESSION_TOKEN = Some st"
    and "gtoken_script e (gtoken_calls w) = Inr (g, Some ui)"
    and "map_of ui ''country'' = Some c" and "map_of ui ''language'' = Some l"
  shows "generate_gtoken e (m, w) =
     (Inr (),
      m\<lparr>nso := (nso m)\<lparr>nso_user_info := Some ui, nso_gtoken := Some g\<rparr>,
        tokens := AList.update GTOKEN
                    (Token_init (TOKEN_EXPIRATIONS e) g GTOKEN (clock e (clock_reads w))) (tokens m),
        data := AList.update ''language'' l (AList.update ''country'' c (data m))\<rparr>,
      w\<lparr>calls := calls w @ [GetGtoken (nso_session_token (nso m))],
        clock_reads := Suc (clock_reads w)\<rparr>)"
  using assms
  by (simp add: generate_gtoken_def NSO_get_gtoken_def add_token_str_now)

lemma generate_gtoken_calls:
  assumes "generate_gtoken e (m, w) = (r, m', w')"
  shows "calls w' = calls w \<or> calls w' = calls w @ [GetGtoken (nso_session_token (nso m))]"
  using assms
  by (auto simp add: generate_gtoken_def NSO_get_gtoken_def add_token_str_now Let_def
      split: if_splits sum.splits prod.splits option.splits)

lemma func_no_session:
  "map_of (tokens m) SESSION_TOKEN = None \<Longrightarrow>
   generate_bullet_token_func e (m, w) = (Inl ValueError, m, w)"
  by (simp add: generate_bullet_token_func_def)

lemma func_mint:
  assumes "map_of (tokens m) SESSION_TOKEN = Some st"
    and "map_of (tokens m) GTOKEN = Some gt" and "nso_user_info (nso m) = Some ui"
    and "bullet_script e (bullet_calls w) = Inr b"
  shows "generate_bullet_token_func e (m, w) =
     ((if b = '''' then Inl SplatNetException else Inr ()),
      m\<lparr>tokens := AList.update BULLET_TOKEN
                    (Token_init (TOKEN_EXPIRATIONS e) b BULLET_TOKEN (clock e (clock_reads w))) (tokens m)\<rparr>,
      w\<lparr>calls := calls w @ [GetBulletToken (nso_gtoken (nso m)) (nso_user_info (nso m))],
        clock_reads := Suc (clock_reads w)\<rparr>)"
  using assms
  by (simp add: generate_bullet_token_func_def NSO_get_bullet_token_def add_token_str_now
      get_full_def update_conv' is_valid_def Token_init_def)

lemma generate_bullet_token_unfold:
  "generate_bullet_token e s =
     (case generate_bullet_token_func e s of
        (Inl x, s') \<Rightarrow> if x = SplatNetException then generate_bullet_token_func e s' else (Inl x, s')
      | (Inr r, s') \<Rightarrow> (Inr r, s'))"
  by (simp add: generate_bullet_token_def split: prod.splits sum.splits)

lemma generate_gtoken_bullet_calls:
  assumes "generate_gtoken e (m, w) = (r, m', w')"
  shows "bullet_calls w' = bullet_calls w"
  using generate_gtoken_calls [OF assms] by (auto simp add: bullet_calls_def)

lemma func_bullet_calls_le:
  assumes "generate_bullet_token_func e (m, w) = (r, m', w')"
  shows "bullet_calls w' \<le> Suc (bullet_calls w)"
  using assms
  by (auto simp add: generate_bullet_token_func_def NSO_get_bullet_token_def add_token_str_now
      split: if_splits sum.splits prod.splits dest: generate_gtoken_bullet_calls)

lemma generate_bullet_token_calls_le:
  assumes "generate_bullet_token e (m, w) = (r, m', w')"
  shows "bullet_calls w' \<le> bullet_calls w + 2"
proof (cases "generate_bullet_token_func e (m, w)")
  case (fields r1 m1 w1)
  have le1: "bullet_calls w1 \<le> Suc (bullet_calls w)"
    using fields by (rule func_bullet_calls_le)
  show ?thesis
  proof (cases "r1 = Inl SplatNetException")
    case True
    with fields assms have "generate_bullet_token_func e (m1, w1) = (r, m', w')"
      by (simp add: generate_bullet_token_unfold)
    then have "bullet_calls w' \<le> Suc (bullet_calls w1)"
      by (rule func_bullet_calls_le)
    with le1 show ?thesis by simp
  next
    case False
    with fields assms have "w' = w1"
      by (auto simp add: generate_bullet_token_unfold split: sum.splits if_splits)
    with le1 show ?thesis by simp
  qed
qed

lemma func_after_derivation:
  assumes sess: "map_of (tokens m) SESSION_TOKEN = Some st"
    and trig: "map_of (tokens m) GTOKEN = None \<or> nso_user_info (nso m) = None"
    and scr: "gtoken_script e (gtoken_calls w) = Inr (g, Some ui)"
    and c: "map_of ui ''country'' = Some c" and l: "map_of ui ''language'' = Some l"
    and gg: "generate_gtoken e (m, w) = (r1, m1, w1)"
  shows "generate_bullet_token_func e (m, w) = generate_bullet_token_func e (m1, w1)"
    and "map_of (tokens m1) SESSION_TOKEN = Some st"
    and "map_of (tokens m1) GTOKEN \<noteq> None" and "nso_user_info (nso m1) = Some ui"
    and "calls w1 = calls w @ [GetGtoken (nso_session_token (nso m))]"
proof -
  note ex = generate_gtoken_success [OF sess scr c l]
  from ex gg have r1: "r1 = Inr ()" by simp
  from ex gg show s1: "map_of (tokens m1) SESSION_TOKEN = Some st"
    using sess by (auto simp add: update_conv')
  from ex gg show g1: "map_of (tokens m1) GTOKEN \<noteq> None"
    by (auto simp add: update_conv')
  from ex gg show u1: "nso_user_info (nso m1) = Some ui" by auto
  from ex gg show "calls w1 = calls w @ [GetGtoken (nso_session_token (nso m))]" by auto
  from g1 obtain gt where g1': "map_of (tokens m1) GTOKEN = Some gt" by auto
  have "generate_bullet_token_func e (m, w) =
        (case NSO_get_bullet_token e (nso_gtoken (nso m1)) (nso_user_info (nso m1)) w1 of
                (Inl x, w2) \<Rightarrow> (Inl x, m1, w2)
              | (Inr bullet_token, w2) \<Rightarrow>
                  (case add_token e (Inl bullet_token) (Some BULLET_TOKEN) None (m1, w2) of
                     (Inl x, s3) \<Rightarrow> (Inl x, s3)
                   | (Inr _, m3, w3) \<Rightarrow>
                       (case get_full m3 BULLET_TOKEN of
                          Inl x \<Rightarrow> (Inl x, m3, w3)
                        | Inr bullet \<Rightarrow>
                            if \<not> is_valid bullet then (Inl SplatNetException, m3, w3)
                            else (Inr (), m3, w3))))"
    using sess trig gg r1 by (auto simp add: generate_bullet_token_func_def)
  also have "\<dots> = generate_bullet_token_func e (m1, w1)"
    using s1 g1' u1 by (simp add: generate_bullet_token_func_def)
  finally show "generate_bullet_token_func e (m, w) = generate_bullet_token_func e (m1, w1)" .
qed

lemma func_mint_counts:
  assumes "map_of (tokens m) SESSION_TOKEN = Some st"
    and "map_of (tokens m) GTOKEN = Some gt" and "nso_user_info (nso m) = Some ui"
    and "generate_bullet_token_func e (m, w) = (r, m', w')"
  shows "bullet_calls w' = Suc (bullet_calls w)"
  using assms
  by (auto simp add: generate_bullet_token_func_def NSO_get_bullet_token_def add_token_str_now
      split: sum.splits if_splits)

lemma func_ready:
  assumes sess: "map_of (tokens m) SESSION_TOKEN = Some st"
    and acct: "(map_of (tokens m) GTOKEN \<noteq> None \<and> nso_user_info (nso m) \<noteq> None) \<or>
       (\<exists>g ui. gtoken_script e (gtoken_calls w) = Inr (g, Some ui) \<and>
          map_of ui ''country'' \<noteq> None \<and> map_of ui ''language'' \<noteq> None)"
  shows "\<exists>m0 w0 gt ui. generate_bullet_token_func e (m, w) = generate_bullet_token_func e (m0, w0)
      \<and> map_of (tokens m0) SESSION_TOKEN = Some st \<and> map_of (tokens m0) GTOKEN = Some gt
      \<and> nso_user_info (nso m0) = Some ui \<and> bullet_calls w0 = bullet_calls w"
proof (cases "map_of (tokens m) GTOKEN \<noteq> None \<and> nso_user_info (nso m) \<noteq> None")
  case True
  with sess show ?thesis by auto
next
  case False
  with acct obtain g ui c l where scr: "gtoken_script e (gtoken_calls w) = Inr (g, Some ui)"
    and c: "map_of ui ''country'' = Some c" and l: "map_of ui ''language'' = Some l"
    by auto
  from False have trig: "map_of (tokens m) GTOKEN = None \<or> nso_user_info (nso m) = None"
    by auto
  obtain r1 m1 w1 where gg: "generate_gtoken e (m, w) = (r1, m1, w1)"
    by (cases "generate_gtoken e (m, w)") auto
  note d = func_after_derivation [OF sess trig scr c l gg]
  from d(3) obtain gt where "map_of (tokens m1) GTOKEN = Some gt" by auto
  moreover have "bullet_calls w1 = bullet_calls w"
    using gg by (rule generate_gtoken_bullet_calls)
  ultimately show ?thesis using d(1,2,4) by blast
qed

text \<open>
  C1. One invocation of \<^verbatim>\<open>generate_bullet_token\<close> never executes the minting call
  \<^verbatim>\<open>get_bullet_token\<close> more than twice. When the session entry is present, the Account
  step is available (a gtoken entry and user info are there, or the pending
  \<^verbatim>\<open>get_gtoken\<close> answer is a success with country and language) and the first minting
  answer is the empty string, the minting call is executed exactly twice; if the second
  answer is a non-empty value the invocation succeeds with that value stored, and if it
  is empty again the invocation fails with \<^verbatim>\<open>SplatNetException\<close>.
\<close>

theorem generate_bullet_token_retries_once:
  assumes run: "generate_bullet_token e (m, w) = (r, m', w')"
  shows "bullet_calls w' \<le> bullet_calls w + 2 \<and>
    (map_of (tokens m) SESSION_TOKEN \<noteq> None \<and>
     ((map_of (tokens m) GTOKEN \<noteq> None \<and> nso_user_info (nso m) \<noteq> None) \<or>
      (\<exists>g ui. gtoken_script e (gtoken_calls w) = Inr (g, Some ui) \<and>
          map_of ui ''country'' \<noteq> None \<and> map_of ui ''language'' \<noteq> None)) \<and>
     bullet_script e (bullet_calls w) = Inr '''' \<longrightarrow>
       bullet_calls w' = bullet_calls w + 2 \<and>
       (\<forall>v. bullet_script e (Suc (bullet_calls w)) = Inr v \<longrightarrow>
          r = (if v = '''' then Inl SplatNetException else Inr ()) \<and>
          get m' BULLET_TOKEN = Inr v))"
proof (intro conjI impI)
  show "bullet_calls w' \<le> bullet_calls w + 2"
    using run by (rule generate_bullet_token_calls_le)
next
  assume H: "map_of (tokens m) SESSION_TOKEN \<noteq> None \<and>
     ((map_of (tokens m) GTOKEN \<noteq> None \<and> nso_user_info (nso m) \<noteq> None) \<or>
      (\<exists>g ui. gtoken_script e (gtoken_calls w) = Inr (g, Some ui) \<and>
          map_of ui ''country'' \<noteq> None \<and> map_of ui ''language'' \<noteq> None)) \<and>
     bullet_script e (bullet_calls w) = Inr ''''"
  then obtain st where sess: "map_of (tokens m) SESSION_TOKEN = Some st" by auto
  from H func_ready [OF sess] obtain m0 w0 gt ui
    where same: "generate_bullet_token_func e (m, w) = generate_bullet_token_func e (m0, w0)"
      and s0: "map_of (tokens m0) SESSION_TOKEN = Some st"
      and g0: "map_of (tokens m0) GTOKEN = Some gt"
      and u0: "nso_user_info (nso m0) = Some ui"
      and n0: "bullet_calls w0 = bullet_calls w"
    by blast
  from H n0 have first: "bullet_script e (bullet_calls w0) = Inr ''''" by simp
  define m1 where "m1 = m0\<lparr>tokens := AList.update BULLET_TOKEN
      (Token_init (TOKEN_EXPIRATIONS e) '''' BULLET_TOKEN (clock e (clock_reads w0))) (tokens m0)\<rparr>"
  define w1 where "w1 = w0\<lparr>calls := calls w0 @ [GetBulletToken (nso_gtoken (nso m0)) (nso_user_info (nso m0))],
      clock_reads := Suc (clock_reads w0)\<rparr>"
  have attempt1: "generate_bullet_token_func e (m, w) = (Inl SplatNetException, m1, w1)"
    using func_mint [OF s0 g0 u0 first] same by (simp add: m1_def w1_def)
  have attempt2: "generate_bullet_token_func e (m1, w1) = (r, m', w')"
    using run attempt1 by (simp add: generate_bullet_token_unfold)
  have s1: "map_of (tokens m1) SESSION_TOKEN = Some st"
    and g1: "map_of (tokens m1) GTOKEN = Some gt"
    and u1: "nso_user_info (nso m1) = Some ui"
    using s0 g0 u0 by (simp_all add: m1_def update_conv')
  have n1: "bullet_calls w1 = Suc (bullet_calls w)"
    using n0 by (simp add: w1_def)
  have "bullet_calls w' = Suc (bullet_calls w1)"
    using s1 g1 u1 attempt2 by (rule func_mint_counts)
  with n1 show "bullet_calls w' = bullet_calls w + 2" by simp
  show "\<forall>v. bullet_script e (Suc (bullet_calls w)) = Inr v \<longrightarrow>
          r = (if v = '''' then Inl SplatNetException else Inr ()) \<and>
          get m' BULLET_TOKEN = Inr v"
  proof (intro allI impI)
    fix v
    assume "bullet_script e (Suc (bullet_calls w)) = Inr v"
    with n1 have second: "bullet_script e (bullet_calls w1) = Inr v" by simp
    from func_mint [OF s1 g1 u1 second] attempt2
    show "r = (if v = '''' then Inl SplatNetException else Inr ()) \<and> get m' BULLET_TOKEN = Inr v"
      by (auto simp add: get_def update_conv' Token_init_def)
  qed
qed

theorem generate_bullet_token_retries_once_witness:
  "map_of (tokens (session_manager ''sess-abc'')) SESSION_TOKEN \<noteq> None
   \<and> bullet_script (example_env (\<lambda>n. if n = 0 then Inr '''' else Inr ''bullet-2'') (\<lambda>n. Inr 200))
         (bullet_calls world_start) = Inr ''''
   \<and> bullet_calls (snd (snd (generate_bullet_token
         (example_env (\<lambda>n. if n = 0 then Inr '''' else Inr ''bullet-2'') (\<lambda>n. Inr 200))
         (session_manager ''sess-abc'', world_start)))) = 2
   \<and> fst (generate_bullet_token
         (example_env (\<lambda>n. if n = 0 then Inr '''' else Inr ''bullet-2'') (\<lambda>n. Inr 200))
         (session_manager ''sess-abc'', world_start)) = Inr ()
   \<and> bullet_calls (snd (snd (generate_bullet_token
         (example_env (\<lambda>n. Inr '''') (\<lambda>n. Inr 200))
         (session_manager ''sess-abc'', world_start)))) = 2
   \<and> fst (generate_bullet_token
         (example_env (\<lambda>n. Inr '''') (\<lambda>n. Inr 200))
         (session_manager ''sess-abc'', world_start)) = Inl SplatNetException"
  using generate_bullet_token_retries_once
      [of "example_env (\<lambda>n. if n = 0 then Inr '''' else Inr ''bullet-2'') (\<lambda>n. Inr 200)"
          "session_manager ''sess-abc''" world_start
          "fst (generate_bullet_token
             (example_env (\<lambda>n. if n = 0 then Inr '''' else Inr ''bullet-2'') (\<lambda>n. Inr 200))
             (session_manager ''sess-abc'', world_start))"
          "fst (snd (generate_bullet_token
             (example_env (\<lambda>n. if n = 0 then Inr '''' else Inr ''bullet-2'') (\<lambda>n. Inr 200))
             (session_manager ''sess-abc'', world_start)))"
          "snd (snd (generate_bullet_token
             (example_env (\<lambda>n. if n = 0 then Inr '''' else Inr ''bullet-2'') (\<lambda>n. Inr 200))
             (session_manager ''sess-abc'', world_start)))"]
    generate_bullet_token_retries_once
      [of "example_env (\<lambda>n. Inr '''') (\<lambda>n. Inr 200)"
          "session_manager ''sess-abc''" world_start
          "fst (generate_bullet_token (example_env (\<lambda>n. Inr '''') (\<lambda>n. Inr 200))
             (session_manager ''sess-abc'', world_start))"
          "fst (snd (generate_bullet_token (example_env (\<lambda>n. Inr '''') (\<lambda>n. Inr 200))
             (session_manager ''sess-abc'', world_start)))"
          "snd (snd (generate_bullet_token (example_env (\<lambda>n. Inr '''') (\<lambda>n. Inr 200))
             (session_manager ''sess-abc'', world_start)))"]
  by (simp add: example_env_def session_manager_def world_start_def example_user_info_def
      bullet_calls_def gtoken_calls_def)

section \<open>Keychain consistency and frame\<close>

lemma update_typed:
  "\<forall>(k', t') \<in> set al. f t' = k' \<Longrightarrow> f t = k \<Longrightarrow> \<forall>(k', t') \<in> set (AList.update k t al). f t' = k'"
  by (induction al) auto

lemma keychain_consistent_tokens:
  "tokens m' = tokens m \<Longrightarrow> keychain_consistent m \<Longrightarrow> keychain_consistent m'"
  by (simp add: keychain_consistent_def)

lemma keychain_consistent_update:
  assumes "keychain_consistent m" and "token_type t = k"
    and "tokens m' = AList.update k t (tokens m)"
  shows "keychain_consistent m'"
  using assms update_typed [of "tokens m" token_type t k]
  by (simp add: keychain_consistent_def distinct_update)

lemma add_token_tokens:
  assumes "add_token e tok ty ts (m, w) = (r, m', w')"
  shows "tokens m' = tokens m \<or> (\<exists>t. tokens m' = AList.update (token_type t) t (tokens m))"
proof (cases tok)
  case (Inr t)
  with assms have "tokens m' = AList.update (token_type t) t (tokens m)"
    by (auto simp add: add_token_obj)
  then show ?thesis by blast
next
  case (Inl v)
  show ?thesis
  proof (cases ty)
    case None
    with Inl assms show ?thesis by (simp add: add_token_def)
  next
    case (Some k)
    obtain stamp where "tokens m' = AList.update k (Token_init (TOKEN_EXPIRATIONS e) v k stamp) (tokens m)"
      using assms Inl Some by (cases ts) (auto simp add: add_token_str_now add_token_str_at)
    moreover have "token_type (Token_init (TOKEN_EXPIRATIONS e) v k stamp) = k"
      by (simp add: Token_init_def)
    ultimately show ?thesis by metis
  qed
qed

lemma add_token_consistent:
  assumes "keychain_consistent m" and "add_token e tok ty ts (m, w) = (r, m', w')"
  shows "keychain_consistent m'"
  using add_token_tokens [OF assms(2)] assms(1)
  by (auto intro: keychain_consistent_tokens keychain_consistent_update)

lemma add_session_token_consistent:
  assumes "keychain_consistent m" and "add_session_token e v (m, w) = (r, m', w')"
  shows "keychain_consistent m'"
proof (cases "add_token e (Inl v) (Some SESSION_TOKEN) None (m, w)")
  case (fields r1 m1 w1)
  then have "keychain_consistent m1" using assms(1) add_token_consistent by blast
  moreover have "tokens m' = tokens m1"
    using assms(2) fields by (auto simp add: add_session_token_def split: sum.splits)
  ultimately show ?thesis by (rule keychain_consistent_tokens [rotated])
qed

lemma generate_gtoken_tokens:
  assumes "generate_gtoken e (m, w) = (r, m', w')"
  shows "tokens m' = tokens m \<or>
     (\<exists>g ui. gtoken_script e (gtoken_calls w) = Inr (g, ui) \<and>
        tokens m' = AList.update GTOKEN
          (Token_init (TOKEN_EXPIRATIONS e) g GTOKEN (clock e (clock_reads w))) (tokens m))"
proof (cases "map_of (tokens m) SESSION_TOKEN = None")
  case True
  with assms show ?thesis by (simp add: generate_gtoken_def)
next
  case False
  show ?thesis
  proof (cases "gtoken_script e (gtoken_calls w)")
    case (Inl x)
    with False assms show ?thesis
      by (auto simp add: generate_gtoken_def NSO_get_gtoken_def)
  next
    case (Inr p)
    obtain g ui where p: "p = (g, ui)" by (cases p)
    from False assms Inr p
    have "tokens m' = AList.update GTOKEN
          (Token_init (TOKEN_EXPIRATIONS e) g GTOKEN (clock e (clock_reads w))) (tokens m)"
      by (auto simp add: generate_gtoken_def NSO_get_gtoken_def add_token_str_now
          split: option.splits)
    with Inr p show ?thesis by simp
  qed
qed

lemma generate_gtoken_consistent:
  assumes "keychain_consistent m" and "generate_gtoken e (m, w) = (r, m', w')"
  shows "keychain_consistent m'"
proof -
  have "token_type (Token_init (TOKEN_EXPIRATIONS e) g GTOKEN stamp) = GTOKEN" for g stamp
    by (simp add: Token_init_def)
  then show ?thesis
    using generate_gtoken_tokens [OF assms(2)] assms(1)
    by (auto intro: keychain_consistent_tokens keychain_consistent_update)
qed

lemma func_consistent:
  assumes "keychain_consistent m" and "generate_bullet_token_func e (m, w) = (r, m', w')"
  shows "keychain_consistent m'"
proof -
  have add: "keychain_consistent m1 \<Longrightarrow>
      keychain_consistent (m1\<lparr>tokens := AList.update BULLET_TOKEN
        (Token_init (TOKEN_EXPIRATIONS e) b BULLET_TOKEN stamp) (tokens m1)\<rparr>)" for m1 b stamp
    by (rule keychain_consistent_update [where k = BULLET_TOKEN]) (simp_all add: Token_init_def)
  show ?thesis
    using assms add
    by (auto simp add: generate_bullet_token_func_def NSO_get_bullet_token_def add_token_str_now
        split: if_splits sum.splits prod.splits dest: generate_gtoken_consistent)
qed

lemma generate_bullet_token_consistent:
  assumes "keychain_consistent m" and "generate_bullet_token e (m, w) = (r, m', w')"
  shows "keychain_consistent m'"
proof (cases "generate_bullet_token_func e (m, w)")
  case (fields r1 m1 w1)
  then have k1: "keychain_consistent m1" using assms(1) func_consistent by blast
  show ?thesis
  proof (cases "r1 = Inl SplatNetException")
    case True
    with fields assms(2) have "generate_bullet_token_func e (m1, w1) = (r, m', w')"
      by (simp add: generate_bullet_token_unfold)
    with k1 show ?thesis by (rule func_consistent)
  next
    case False
    with fields assms(2) have "m' = m1"
      by (auto simp add: generate_bullet_token_unfold split: sum.splits if_splits)
    with k1 show ?thesis by simp
  qed
qed

lemma run_operation_consistent:
  assumes "keychain_consistent m" and "run_operation e x (m, w) = (r, m', w')"
  shows "keychain_consistent m'"
  using assms
  by (cases x)
    (auto dest: add_token_consistent add_session_token_consistent generate_gtoken_consistent
      generate_bullet_token_consistent)

lemma run_operations_consistent:
  "keychain_consistent (fst s) \<Longrightarrow> keychain_consistent (fst (run_operations e xs s))"
proof (induction xs arbitrary: s)
  case Nil
  then show ?case by simp
next
  case (Cons x xs)
  obtain m w where s: "s = (m, w)" by (cases s)
  obtain r m' w' where step: "run_operation e x (m, w) = (r, m', w')"
    by (cases "run_operation e x (m, w)") auto
  from Cons.prems s have "keychain_consistent m" by simp
  then have "keychain_consistent m'" using step by (rule run_operation_consistent)
  then have "keychain_consistent (fst (run_operations e xs (m', w')))"
    using Cons.IH [of "(m', w')"] by simp
  with s step show ?case by simp
qed

lemma filter_key_update:
  "distinct (map fst al) \<Longrightarrow> length (filter (\<lambda>p. fst p = k) (AList.update k v al)) = 1"
  by (induction al) (auto simp add: filter_empty_conv image_iff)

text \<open>
  C9. Starting from a new manager, after any sequence of \<^verbatim>\<open>add_token\<close> (with a string
  or a \<^verbatim>\<open>Token\<close> object), \<^verbatim>\<open>add_session_token\<close>, \<^verbatim>\<open>generate_gtoken\<close> and
  \<^verbatim>\<open>generate_bullet_token\<close>, whatever the collaborators answer and whether or not the
  operations fail, every key of the keychain is the \<^verbatim>\<open>token_type\<close> of its token and no
  key occurs twice. Adding a value of kind \<open>k\<close> to such a manager leaves exactly one
  entry of kind \<open>k\<close>, holding the new value, and the entries of the other kinds as they
  were.
\<close>

theorem keychain_kind_consistency:
  "keychain_consistent (fst (run_operations e xs (TokenManager_init n, w))) \<and>
   (\<forall>r m' w'. add_token e (Inl v) (Some k) ts (run_operations e xs (TokenManager_init n, w)) = (r, m', w') \<longrightarrow>
      keychain_consistent m' \<and> get m' k = Inr v \<and>
      length (filter (\<lambda>p. fst p = k) (tokens m')) = 1 \<and>
      AList.delete k (tokens m') = AList.delete k (tokens (fst (run_operations e xs (TokenManager_init n, w)))))"
proof -
  obtain m1 w1 where run: "run_operations e xs (TokenManager_init n, w) = (m1, w1)"
    by (cases "run_operations e xs (TokenManager_init n, w)")
  have "keychain_consistent (TokenManager_init n)"
    by (simp add: keychain_consistent_def TokenManager_init_def)
  then have k1: "keychain_consistent m1"
    using run_operations_consistent [of "(TokenManager_init n, w)" e xs] run by simp
  have "keychain_consistent m' \<and> get m' k = Inr v \<and>
      length (filter (\<lambda>p. fst p = k) (tokens m')) = 1 \<and>
      AList.delete k (tokens m') = AList.delete k (tokens m1)"
    if add: "add_token e (Inl v) (Some k) ts (m1, w1) = (r, m', w')" for r m' w'
  proof -
    obtain stamp where t: "tokens m' = AList.update k (Token_init (TOKEN_EXPIRATIONS e) v k stamp) (tokens m1)"
      using add by (cases ts) (auto simp add: add_token_str_now add_token_str_at)
    have "keychain_consistent m'" using k1 add by (rule add_token_consistent)
    moreover have "get m' k = Inr v"
      by (simp add: get_def t update_conv' Token_init_def)
    moreover have "length (filter (\<lambda>p. fst p = k) (tokens m')) = 1"
      using k1 by (simp add: t filter_key_update keychain_consistent_def)
    moreover have "AList.delete k (tokens m') = AList.delete k (tokens m1)"
      by (simp add: t delete_update_same)
    ultimately show ?thesis by simp
  qed
  with k1 run show ?thesis by simp
qed

lemma example_run_keys:
  "map fst (tokens (fst (run_operations default_env
       [Add_session_token ''sess-abc'', Generate_bullet_token,
        Add_token (Inl ''gtoken-2'') (Some GTOKEN) None]
       (TokenManager_init NSO_new_instance, world_start))))
   = [SESSION_TOKEN, GTOKEN, BULLET_TOKEN]"
  by (simp add: default_env_def example_env_def world_start_def TokenManager_init_def
      NSO_new_instance_def add_session_token_def add_token_str_now generate_bullet_token_unfold
      generate_bullet_token_func_def generate_gtoken_def NSO_get_gtoken_def NSO_get_bullet_token_def
      example_user_info_def get_full_def is_valid_def Token_init_def gtoken_calls_def bullet_calls_def)

theorem keychain_kind_consistency_witness:
  "map fst (tokens (fst (run_operations default_env
       [Add_session_token ''sess-abc'', Generate_bullet_token,
        Add_token (Inl ''gtoken-2'') (Some GTOKEN) None]
       (TokenManager_init NSO_new_instance, world_start))))
     = [SESSION_TOKEN, GTOKEN, BULLET_TOKEN]
   \<and> keychain_consistent (fst (run_operations default_env
       [Add_session_token ''sess-abc'', Generate_bullet_token,
        Add_token (Inl ''gtoken-2'') (Some GTOKEN) None]
       (TokenManager_init NSO_new_instance, world_start)))
   \<and> get (fst (snd (add_token default_env (Inl ''gtoken-3'') (Some GTOKEN) (Some 7)
       (run_operations default_env
         [Add_session_token ''sess-abc'', Generate_bullet_token,
          Add_token (Inl ''gtoken-2'') (Some GTOKEN) None]
         (TokenManager_init NSO_new_instance, world_start))))) GTOKEN = Inr ''gtoken-3''"
proof -
  let ?s = "run_operations default_env
       [Add_session_token ''sess-abc'', Generate_bullet_token,
        Add_token (Inl ''gtoken-2'') (Some GTOKEN) None]
       (TokenManager_init NSO_new_instance, world_start)"
  let ?a = "add_token default_env (Inl ''gtoken-3'') (Some GTOKEN) (Some 7) ?s"
  have "?a = (fst ?a, fst (snd ?a), snd (snd ?a))" by simp
  with keychain_kind_consistency [of default_env
       "[Add_session_token ''sess-abc'', Generate_bullet_token,
        Add_token (Inl ''gtoken-2'') (Some GTOKEN) None]" NSO_new_instance world_start
       "''gtoken-3''" GTOKEN "Some 7"]
  have "keychain_consistent (fst ?s)" and "get (fst (snd ?a)) GTOKEN = Inr ''gtoken-3''"
    by blast+
  then show ?thesis using example_run_keys by simp
qed

text \<open>
  C8 as stated fails: adding a gtoken writes the collaborator's \<^verbatim>\<open>_gtoken\<close> field. On
  the manager that \<^verbatim>\<open>from_session_token\<close> builds, the field is unset before
  \<^verbatim>\<open>add_token\<close> and holds the added value after it.
\<close>

theorem add_token_writes_nso_counterexample:
  "nso_gtoken (nso (session_manager ''sess-abc'')) = None
   \<and> nso_gtoken (nso (fst (snd (add_token default_env (Inl ''gtoken-1'') (Some GTOKEN) None
        (session_manager ''sess-abc'', world_start))))) = Some ''gtoken-1''"
  by (simp add: session_manager_def add_token_str_now)

text \<open>
  C8, amended. \<^verbatim>\<open>add_token\<close> and \<^verbatim>\<open>add_session_token\<close> make no call on the
  collaborators or the network and leave the auxiliary data and the origin unchanged.
  Beyond the keychain mapping, \<^verbatim>\<open>add_token\<close> changes one thing: when the kind is
  \<^verbatim>\<open>GTOKEN\<close> it stores the value in the collaborator's \<^verbatim>\<open>_gtoken\<close> field (for every
  other kind the collaborator is unchanged); \<^verbatim>\<open>add_session_token\<close> stores the value in
  the collaborator's \<^verbatim>\<open>_session_token\<close> field and changes nothing else of it.
  \<^verbatim>\<open>get\<close> and \<^verbatim>\<open>token_is_valid\<close> only read: they are functions of the manager.
\<close>

theorem keychain_operations_frame:
  "(add_token e tok ty ts (m, w) = (r, m', w') \<longrightarrow>
      calls w' = calls w \<and> data m' = data m \<and> origin m' = origin m \<and>
      nso_session_token (nso m') = nso_session_token (nso m) \<and>
      nso_user_info (nso m') = nso_user_info (nso m) \<and>
      (case tok of
         Inr t \<Rightarrow> if token_type t = GTOKEN then nso_gtoken (nso m') = Some (token t)
                  else nso m' = nso m
       | Inl v \<Rightarrow> if ty = Some GTOKEN then nso_gtoken (nso m') = Some v else nso m' = nso m))
   \<and> (add_session_token e v (m, w) = (r2, m2, w2) \<longrightarrow>
      calls w2 = calls w \<and> data m2 = data m \<and> origin m2 = origin m \<and>
      nso m2 = (nso m)\<lparr>nso_session_token := Some v\<rparr>)"
proof (intro conjI impI)
  assume a: "add_token e tok ty ts (m, w) = (r, m', w')"
  note f = add_token_frame [OF a]
  show "calls w' = calls w" "data m' = data m" "origin m' = origin m"
    "nso_session_token (nso m') = nso_session_token (nso m)"
    "nso_user_info (nso m') = nso_user_info (nso m)"
    by (rule f)+
  show "case tok of
         Inr t \<Rightarrow> if token_type t = GTOKEN then nso_gtoken (nso m') = Some (token t)
                  else nso m' = nso m
       | Inl v \<Rightarrow> if ty = Some GTOKEN then nso_gtoken (nso m') = Some v else nso m' = nso m"
  proof (cases tok)
    case (Inr t)
    with a show ?thesis by (auto simp add: add_token_obj)
  next
    case (Inl v)
    show ?thesis
    proof (cases ty)
      case None
      with a Inl show ?thesis by (simp add: add_token_def)
    next
      case (Some k)
      with a Inl show ?thesis
        by (cases ts) (auto simp add: add_token_str_now add_token_str_at)
    qed
  qed
next
  assume s: "add_session_token e v (m, w) = (r2, m2, w2)"
  then have m2: "m2 = m\<lparr>nso := (nso m)\<lparr>nso_session_token := Some v\<rparr>,
      tokens := AList.update SESSION_TOKEN
        (Token_init (TOKEN_EXPIRATIONS e) v SESSION_TOKEN (clock e (clock_reads w))) (tokens m)\<rparr>"
    and w2: "w2 = w\<lparr>clock_reads := Suc (clock_reads w)\<rparr>"
    by (auto simp add: add_session_token_def add_token_str_now)
  show "calls w2 = calls w" by (simp add: w2)
  show "data m2 = data m" "origin m2 = origin m"
    "nso m2 = (nso m)\<lparr>nso_session_token := Some v\<rparr>"
    by (simp_all add: m2)
qed

theorem keychain_operations_frame_witness:
  "calls (snd (snd (add_token default_env (Inl ''bullet-1'') (Some BULLET_TOKEN) None
       (full_manager, world_start)))) = calls world_start
   \<and> nso (fst (snd (add_token default_env (Inl ''bullet-1'') (Some BULLET_TOKEN) None
       (full_manager, world_start)))) = nso full_manager
   \<and> calls (snd (snd (add_session_token default_env ''sess-2'' (full_manager, world_start))))
       = calls world_start
   \<and> nso (fst (snd (add_session_token default_env ''sess-2'' (full_manager, world_start))))
       = (nso full_manager)\<lparr>nso_session_token := Some ''sess-2''\<rparr>"
proof -
  let ?a = "add_token default_env (Inl ''bullet-1'') (Some BULLET_TOKEN) None
       (full_manager, world_start)"
  let ?b = "add_session_token default_env ''sess-2'' (full_manager, world_start)"
  have ea: "?a = (fst ?a, fst (snd ?a), snd (snd ?a))"
    and eb: "?b = (fst ?b, fst (snd ?b), snd (snd ?b))" by simp_all
  from keychain_operations_frame [of default_env "Inl ''bullet-1''" "Some BULLET_TOKEN" None
      full_manager world_start "fst ?a" "fst (snd ?a)" "snd (snd ?a)"
      "''sess-2''" "fst ?b" "fst (snd ?b)" "snd (snd ?b)"] ea eb
  show ?thesis by simp
qed

section \<open>Order of derivation\<close>

lemma generate_gtoken_with_session:
  assumes "map_of (tokens m) SESSION_TOKEN = Some st"
    and "generate_gtoken e (m, w) = (r, m', w')"
  shows "calls w' = calls w @ [GetGtoken (nso_session_token (nso m))]"
  using assms
  by (auto simp add: generate_gtoken_def NSO_get_gtoken_def add_token_str_now Let_def
      split: sum.splits prod.splits option.splits)

lemma generate_gtoken_Inr:
  assumes "generate_gtoken e (m, w) = (Inr u, m', w')"
  shows "map_of (tokens m') GTOKEN \<noteq> None" and "nso_user_info (nso m') \<noteq> None"
    and "map_of (tokens m') SESSION_TOKEN = map_of (tokens m) SESSION_TOKEN"
    and "map_of (tokens m) SESSION_TOKEN \<noteq> None"
  using assms
  by (auto simp add: generate_gtoken_def NSO_get_gtoken_def add_token_str_now Let_def update_conv'
      split: if_splits sum.splits prod.splits option.splits)

lemma func_mint_any:
  assumes "map_of (tokens m) SESSION_TOKEN = Some st"
    and "map_of (tokens m) GTOKEN = Some gt" and "nso_user_info (nso m) = Some ui"
    and "generate_bullet_token_func e (m, w) = (r, m', w')"
  shows "calls w' = calls w @ [GetBulletToken (nso_gtoken (nso m)) (nso_user_info (nso m))]"
    and "nso m' = nso m"
    and "map_of (tokens m') SESSION_TOKEN = Some st" and "map_of (tokens m') GTOKEN = Some gt"
  using assms
  by (auto simp add: generate_bullet_token_func_def NSO_get_bullet_token_def add_token_str_now
      update_conv' split: sum.splits if_splits)

lemma func_derived:
  assumes sess: "map_of (tokens m) SESSION_TOKEN = Some st"
    and trig: "map_of (tokens m) GTOKEN = None \<or> nso_user_info (nso m) = None"
    and gg: "generate_gtoken e (m, w) = (r1, m1, w1)"
  shows "r1 \<noteq> Inr () \<Longrightarrow> generate_bullet_token_func e (m, w) = (r1, m1, w1)"
    and "r1 = Inr () \<Longrightarrow> generate_bullet_token_func e (m, w) = generate_bullet_token_func e (m1, w1)"
proof -
  show "generate_bullet_token_func e (m, w) = (r1, m1, w1)" if "r1 \<noteq> Inr ()"
    using sess trig gg that by (cases r1) (auto simp add: generate_bullet_token_func_def)
  show "generate_bullet_token_func e (m, w) = generate_bullet_token_func e (m1, w1)" if "r1 = Inr ()"
  proof -
    from gg that have gg': "generate_gtoken e (m, w) = (Inr (), m1, w1)" by simp
    note p = generate_gtoken_Inr [OF gg']
    from p(1) obtain gt where g1: "map_of (tokens m1) GTOKEN = Some gt" by auto
    from p(2) obtain ui where u1: "nso_user_info (nso m1) = Some ui" by auto
    from p(3) sess have s1: "map_of (tokens m1) SESSION_TOKEN = Some st" by simp
    have "generate_bullet_token_func e (m, w) =
        (case NSO_get_bullet_token e (nso_gtoken (nso m1)) (nso_user_info (nso m1)) w1 of
                (Inl x, w2) \<Rightarrow> (Inl x, m1, w2)
              | (Inr bullet_token, w2) \<Rightarrow>
                  (case add_token e (Inl bullet_token) (Some BULLET_TOKEN) None (m1, w2) of
                     (Inl x, s3) \<Rightarrow> (Inl x, s3)
                   | (Inr _, m3, w3) \<Rightarrow>
                       (case get_full m3 BULLET_TOKEN of
                          Inl x \<Rightarrow> (Inl x, m3, w3)
                        | Inr bullet \<Rightarrow>
                            if \<not> is_valid bullet then (Inl SplatNetException, m3, w3)
                            else (Inr (), m3, w3))))"
      using sess trig gg' by (auto simp add: generate_bullet_token_func_def)
    also have "\<dots> = generate_bullet_token_func e (m1, w1)"
      using s1 g1 u1 by (simp add: generate_bullet_token_func_def)
    finally show ?thesis .
  qed
qed

text \<open>The calls of one attempt, by the state it starts in.\<close>

lemma func_calls_shape:
  assumes run: "generate_bullet_token_func e (m, w) = (r, m', w')"
  shows "(map_of (tokens m) SESSION_TOKEN = None \<longrightarrow> r = Inl ValueError \<and> m' = m \<and> w' = w)"
    and "(map_of (tokens m) SESSION_TOKEN \<noteq> None \<longrightarrow>
          (if map_of (tokens m) GTOKEN = None \<or> nso_user_info (nso m) = None
           then calls w' = calls w @ [GetGtoken (nso_session_token (nso m))] \<and> r \<noteq> Inl SplatNetException
              \<or> (\<exists>g ui. calls w' = calls w @ [GetGtoken (nso_session_token (nso m)), GetBulletToken g ui])
              \<or> calls w' = calls w @ [GetGtoken (nso_session_token (nso m))] \<and>
                 gtoken_script e (gtoken_calls w) = Inl SplatNetException
           else calls w' = calls w @ [GetBulletToken (nso_gtoken (nso m)) (nso_user_info (nso m))]))"
    and "bullet_calls w' \<noteq> bullet_calls w \<longrightarrow>
          map_of (tokens m') GTOKEN \<noteq> None \<and> nso_user_info (nso m') \<noteq> None \<and>
          map_of (tokens m') SESSION_TOKEN \<noteq> None"
proof -
  show "map_of (tokens m) SESSION_TOKEN = None \<longrightarrow> r = Inl ValueError \<and> m' = m \<and> w' = w"
    using run by (auto simp add: func_no_session)
  have main: "(if map_of (tokens m) GTOKEN = None \<or> nso_user_info (nso m) = None
           then calls w' = calls w @ [GetGtoken (nso_session_token (nso m))] \<and> r \<noteq> Inl SplatNetException
              \<or> (\<exists>g ui. calls w' = calls w @ [GetGtoken (nso_session_token (nso m)), GetBulletToken g ui])
              \<or> calls w' = calls w @ [GetGtoken (nso_session_token (nso m))] \<and>
                 gtoken_script e (gtoken_calls w) = Inl SplatNetException
           else calls w' = calls w @ [GetBulletToken (nso_gtoken (nso m)) (nso_user_info (nso m))])
        \<and> (bullet_calls w' \<noteq> bullet_calls w \<longrightarrow>
          map_of (tokens m') GTOKEN \<noteq> None \<and> nso_user_info (nso m') \<noteq> None \<and>
          map_of (tokens m') SESSION_TOKEN \<noteq> None)"
    if sess: "map_of (tokens m) SESSION_TOKEN = Some st" for st
  proof (cases "map_of (tokens m) GTOKEN = None \<or> nso_user_info (nso m) = None")
    case False
    then obtain gt ui where g: "map_of (tokens m) GTOKEN = Some gt"
      and u: "nso_user_info (nso m) = Some ui" by auto
    note p = func_mint_any [OF sess g u run]
    from p u False show ?thesis by auto
  next
    case True
    obtain r1 m1 w1 where gg: "generate_gtoken e (m, w) = (r1, m1, w1)"
      by (cases "generate_gtoken e (m, w)") auto
    note c1 = generate_gtoken_with_session [OF sess gg]
    show ?thesis
    proof (cases "r1 = Inr ()")
      case no: False
      from func_derived(1) [OF sess True gg no] run
      have eq: "r = r1" "m' = m1" "w' = w1" by simp_all
      have "bullet_calls w' = bullet_calls w"
        using gg eq by (simp add: generate_gtoken_bullet_calls)
      moreover have "r = Inl SplatNetException \<longrightarrow> gtoken_script e (gtoken_calls w) = Inl SplatNetException"
        using gg eq sess
        by (auto simp add: generate_gtoken_def NSO_get_gtoken_def add_token_str_now Let_def
            split: sum.splits prod.splits option.splits)
      ultimately show ?thesis using True c1 eq by auto
    next
      case yes: True
      from gg yes have gg': "generate_gtoken e (m, w) = (Inr (), m1, w1)" by simp
      note q = generate_gtoken_Inr [OF gg']
      from q(1) obtain gt where g1: "map_of (tokens m1) GTOKEN = Some gt" by auto
      from q(2) obtain ui where u1: "nso_user_info (nso m1) = Some ui" by auto
      from q(3) sess have s1: "map_of (tokens m1) SESSION_TOKEN = Some st" by simp
      from func_derived(2) [OF sess True gg yes] run
      have run1: "generate_bullet_token_func e (m1, w1) = (r, m', w')" by simp
      note p = func_mint_any [OF s1 g1 u1 run1]
      from p c1 True u1 show ?thesis by auto
    qed
  qed
  then show "(map_of (tokens m) SESSION_TOKEN \<noteq> None \<longrightarrow>
          (if map_of (tokens m) GTOKEN = None \<or> nso_user_info (nso m) = None
           then calls w' = calls w @ [GetGtoken (nso_session_token (nso m))] \<and> r \<noteq> Inl SplatNetException
              \<or> (\<exists>g ui. calls w' = calls w @ [GetGtoken (nso_session_token (nso m)), GetBulletToken g ui])
              \<or> calls w' = calls w @ [GetGtoken (nso_session_token (nso m))] \<and>
                 gtoken_script e (gtoken_calls w) = Inl SplatNetException
           else calls w' = calls w @ [GetBulletToken (nso_gtoken (nso m)) (nso_user_info (nso m))]))"
    by auto
  show "bullet_calls w' \<noteq> bullet_calls w \<longrightarrow>
          map_of (tokens m') GTOKEN \<noteq> None \<and> nso_user_info (nso m') \<noteq> None \<and>
          map_of (tokens m') SESSION_TOKEN \<noteq> None"
  proof (cases "map_of (tokens m) SESSION_TOKEN")
    case None
    with run show ?thesis by (auto simp add: func_no_session)
  next
    case (Some st)
    from main [OF Some] show ?thesis by blast
  qed
qed

lemma func_calls_prefix:
  assumes "generate_bullet_token_func e (m, w) = (r, m', w')"
  shows "\<exists>cs. calls w' = calls w @ cs"
proof (cases "map_of (tokens m) SESSION_TOKEN")
  case None
  with func_calls_shape(1) [OF assms] show ?thesis by simp
next
  case (Some st)
  with func_calls_shape(2) [OF assms] show ?thesis
    by (auto split: if_splits)
qed

lemma func_ready_preserved:
  assumes "map_of (tokens m) GTOKEN \<noteq> None" and "nso_user_info (nso m) \<noteq> None"
    and run: "generate_bullet_token_func e (m, w) = (r, m', w')"
  shows "map_of (tokens m') GTOKEN \<noteq> None \<and> nso_user_info (nso m') \<noteq> None \<and>
     gtoken_calls w' = gtoken_calls w"
proof (cases "map_of (tokens m) SESSION_TOKEN")
  case None
  with func_calls_shape(1) [OF run] assms show ?thesis by simp
next
  case (Some st)
  from assms obtain gt ui where g: "map_of (tokens m) GTOKEN = Some gt"
    and u: "nso_user_info (nso m) = Some ui" by auto
  from func_mint_any [OF Some g u run] u show ?thesis
    by (simp add: gtoken_calls_def)
qed

text \<open>
  C2 as stated fails for an expired Account credential. The manager holds a gtoken
  issued at time 0 with 3600 seconds to live; at the clock reading 5000 it is expired,
  yet \<^verbatim>\<open>generate_bullet_token\<close> succeeds after a single call, the minting call made with
  the old gtoken: no Account derivation is run.
\<close>

theorem expired_gtoken_not_rederived_counterexample:
  "map_of (tokens full_manager) GTOKEN = Some (Token_init example_expirations ''gtoken-old'' GTOKEN 0)
   \<and> is_expired (Token_init example_expirations ''gtoken-old'' GTOKEN 0) 5000
   \<and> generate_bullet_token default_env (full_manager, \<lparr>calls = [], clock_reads = 1\<rparr>) =
       (Inr (),
        full_manager\<lparr>tokens := AList.update BULLET_TOKEN
           (Token_init example_expirations ''bullet-new'' BULLET_TOKEN 5000) (tokens full_manager)\<rparr>,
        \<lparr>calls = [GetBulletToken (Some ''gtoken-old'') (Some example_user_info)], clock_reads = 2\<rparr>)"
  by (simp add: full_manager_def default_env_def example_env_def example_expirations_def
      is_expired_iff expiration_Token_init generate_bullet_token_unfold
      generate_bullet_token_func_def NSO_get_bullet_token_def add_token_str_now get_full_def
      is_valid_def bullet_calls_def Token_init_def)

text \<open>
  C2, amended. What triggers the Account derivation inside \<^verbatim>\<open>generate_bullet_token\<close> is
  a missing gtoken entry or unset user info of the collaborator, not expiry.
  \<^item> Without a session entry neither derivation proceeds: both raise \<^verbatim>\<open>ValueError\<close>
    and change nothing.
  \<^item> When the gtoken entry is missing or the user info unset, the first call made, if
    any, is the Account derivation \<^verbatim>\<open>get_gtoken\<close>.
  \<^item> If a minting call was made, the keychain holds a gtoken entry and the user info
    is set afterwards.
  \<^item> With a session entry, a missing gtoken entry (or unset user info), a successful
    \<^verbatim>\<open>get_gtoken\<close> answer carrying country and language and a non-empty minting
    answer, the invocation succeeds and makes exactly two calls: one Account
    derivation, then one minting call with the derived gtoken.
  \<^item> With a gtoken entry present and the user info set, no Account derivation is run.
\<close>

theorem generate_bullet_token_order:
  assumes run: "generate_bullet_token e (m, w) = (r, m', w')"
  shows "(map_of (tokens m) SESSION_TOKEN = None \<longrightarrow>
            generate_gtoken e (m, w) = (Inl ValueError, m, w) \<and>
            r = Inl ValueError \<and> m' = m \<and> w' = w)
    \<and> (map_of (tokens m) GTOKEN = None \<or> nso_user_info (nso m) = None \<longrightarrow>
            calls w' = calls w \<or>
            (\<exists>cs. calls w' = calls w @ GetGtoken (nso_session_token (nso m)) # cs))
    \<and> (bullet_calls w' \<noteq> bullet_calls w \<longrightarrow>
            map_of (tokens m') GTOKEN \<noteq> None \<and> nso_user_info (nso m') \<noteq> None)
    \<and> (map_of (tokens m) SESSION_TOKEN \<noteq> None \<and>
        (map_of (tokens m) GTOKEN = None \<or> nso_user_info (nso m) = None) \<longrightarrow>
          (\<forall>g ui b. gtoken_script e (gtoken_calls w) = Inr (g, Some ui) \<and>
             map_of ui ''country'' \<noteq> None \<and> map_of ui ''language'' \<noteq> None \<and>
             bullet_script e (bullet_calls w) = Inr b \<and> b \<noteq> '''' \<longrightarrow>
               r = Inr () \<and>
               calls w' = calls w @ [GetGtoken (nso_session_token (nso m)),
                                     GetBulletToken (Some g) (Some ui)]))
    \<and> (map_of (tokens m) GTOKEN \<noteq> None \<and> nso_user_info (nso m) \<noteq> None \<longrightarrow>
            gtoken_calls w' = gtoken_calls w)"
proof -
  obtain r1 m1 w1 where a1: "generate_bullet_token_func e (m, w) = (r1, m1, w1)"
    by (cases "generate_bullet_token_func e (m, w)") auto
  have second: "generate_bullet_token_func e (m1, w1) = (r, m', w')" if "r1 = Inl SplatNetException"
    using run a1 that by (simp add: generate_bullet_token_unfold)
  have single: "r = r1 \<and> m' = m1 \<and> w' = w1" if "r1 \<noteq> Inl SplatNetException"
    using run a1 that by (auto simp add: generate_bullet_token_unfold split: sum.splits)
  have p1: "map_of (tokens m) SESSION_TOKEN = None \<longrightarrow>
            generate_gtoken e (m, w) = (Inl ValueError, m, w) \<and>
            r = Inl ValueError \<and> m' = m \<and> w' = w"
  proof
    assume none: "map_of (tokens m) SESSION_TOKEN = None"
    with func_calls_shape(1) [OF a1] have "r1 = Inl ValueError" "m1 = m" "w1 = w" by simp_all
    with single none show "generate_gtoken e (m, w) = (Inl ValueError, m, w) \<and>
            r = Inl ValueError \<and> m' = m \<and> w' = w"
      by (simp add: generate_gtoken_no_session)
  qed
  have p2: "map_of (tokens m) GTOKEN = None \<or> nso_user_info (nso m) = None \<longrightarrow>
            calls w' = calls w \<or>
            (\<exists>cs. calls w' = calls w @ GetGtoken (nso_session_token (nso m)) # cs)"
  proof
    assume trig: "map_of (tokens m) GTOKEN = None \<or> nso_user_info (nso m) = None"
    show "calls w' = calls w \<or>
            (\<exists>cs. calls w' = calls w @ GetGtoken (nso_session_token (nso m)) # cs)"
    proof (cases "map_of (tokens m) SESSION_TOKEN = None")
      case True
      with p1 show ?thesis by simp
    next
      case False
      with func_calls_shape(2) [OF a1] trig
      obtain cs1 where c1: "calls w1 = calls w @ GetGtoken (nso_session_token (nso m)) # cs1"
        by auto
      show ?thesis
      proof (cases "r1 = Inl SplatNetException")
        case True
        from func_calls_prefix [OF second [OF True]] obtain cs2
          where "calls w' = calls w1 @ cs2" by auto
        with c1 show ?thesis by simp
      next
        case False
        with single c1 show ?thesis by simp
      qed
    qed
  qed
  have p3: "bullet_calls w' \<noteq> bullet_calls w \<longrightarrow>
            map_of (tokens m') GTOKEN \<noteq> None \<and> nso_user_info (nso m') \<noteq> None"
  proof (cases "r1 = Inl SplatNetException")
    case False
    with single func_calls_shape(3) [OF a1] show ?thesis by simp
  next
    case True
    note a2 = second [OF True]
    show ?thesis
    proof (cases "bullet_calls w' = bullet_calls w1")
      case False
      with func_calls_shape(3) [OF a2] show ?thesis by simp
    next
      case same: True
      show ?thesis
      proof
        assume "bullet_calls w' \<noteq> bullet_calls w"
        with same have "bullet_calls w1 \<noteq> bullet_calls w" by simp
        with func_calls_shape(3) [OF a1]
        have "map_of (tokens m1) GTOKEN \<noteq> None" "nso_user_info (nso m1) \<noteq> None" by simp_all
        from func_ready_preserved [OF this a2]
        show "map_of (tokens m') GTOKEN \<noteq> None \<and> nso_user_info (nso m') \<noteq> None" by simp
      qed
    qed
  qed
  have p4: "map_of (tokens m) SESSION_TOKEN \<noteq> None \<and>
        (map_of (tokens m) GTOKEN = None \<or> nso_user_info (nso m) = None) \<longrightarrow>
          (\<forall>g ui b. gtoken_script e (gtoken_calls w) = Inr (g, Some ui) \<and>
             map_of ui ''country'' \<noteq> None \<and> map_of ui ''language'' \<noteq> None \<and>
             bullet_script e (bullet_calls w) = Inr b \<and> b \<noteq> '''' \<longrightarrow>
               r = Inr () \<and>
               calls w' = calls w @ [GetGtoken (nso_session_token (nso m)),
                                     GetBulletToken (Some g) (Some ui)])"
  proof (intro impI allI)
    fix g ui b
    assume A: "map_of (tokens m) SESSION_TOKEN \<noteq> None \<and>
        (map_of (tokens m) GTOKEN = None \<or> nso_user_info (nso m) = None)"
    assume B: "gtoken_script e (gtoken_calls w) = Inr (g, Some ui) \<and>
             map_of ui ''country'' \<noteq> None \<and> map_of ui ''language'' \<noteq> None \<and>
             bullet_script e (bullet_calls w) = Inr b \<and> b \<noteq> ''''"
    from A obtain st where sess: "map_of (tokens m) SESSION_TOKEN = Some st" by auto
    from A have trig: "map_of (tokens m) GTOKEN = None \<or> nso_user_info (nso m) = None" by simp
    from B obtain c l where scr: "gtoken_script e (gtoken_calls w) = Inr (g, Some ui)"
      and c: "map_of ui ''country'' = Some c" and l: "map_of ui ''language'' = Some l"
      and bs: "bullet_script e (bullet_calls w) = Inr b" and b: "b \<noteq> ''''" by auto
    define md where "md = m\<lparr>nso := (nso m)\<lparr>nso_user_info := Some ui, nso_gtoken := Some g\<rparr>,
        tokens := AList.update GTOKEN
                    (Token_init (TOKEN_EXPIRATIONS e) g GTOKEN (clock e (clock_reads w))) (tokens m),
        data := AList.update ''language'' l (AList.update ''country'' c (data m))\<rparr>"
    define wd where "wd = w\<lparr>calls := calls w @ [GetGtoken (nso_session_token (nso m))],
        clock_reads := Suc (clock_reads w)\<rparr>"
    have gg: "generate_gtoken e (m, w) = (Inr (), md, wd)"
      using generate_gtoken_success [OF sess scr c l] by (simp add: md_def wd_def)
    have sd: "map_of (tokens md) SESSION_TOKEN = Some st"
      using sess by (simp add: md_def update_conv')
    have gd: "map_of (tokens md) GTOKEN =
        Some (Token_init (TOKEN_EXPIRATIONS e) g GTOKEN (clock e (clock_reads w)))"
      by (simp add: md_def update_conv')
    have ud: "nso_user_info (nso md) = Some ui" by (simp add: md_def)
    have bd: "bullet_script e (bullet_calls wd) = Inr b" using bs by (simp add: wd_def)
    have "generate_bullet_token_func e (m, w) = generate_bullet_token_func e (md, wd)"
      using func_derived(2) [OF sess trig gg] by simp
    with func_mint [OF sd gd ud bd] a1 b
    have "r1 = Inr ()" and "calls w1 = calls wd @ [GetBulletToken (nso_gtoken (nso md)) (Some ui)]"
      by (auto simp add: ud)
    moreover have "nso_gtoken (nso md) = Some g" by (simp add: md_def)
    ultimately show "r = Inr () \<and>
               calls w' = calls w @ [GetGtoken (nso_session_token (nso m)),
                                     GetBulletToken (Some g) (Some ui)]"
      using single by (simp add: wd_def)
  qed
  have p5: "map_of (tokens m) GTOKEN \<noteq> None \<and> nso_user_info (nso m) \<noteq> None \<longrightarrow>
            gtoken_calls w' = gtoken_calls w"
  proof
    assume "map_of (tokens m) GTOKEN \<noteq> None \<and> nso_user_info (nso m) \<noteq> None"
    then have g: "map_of (tokens m) GTOKEN \<noteq> None" and u: "nso_user_info (nso m) \<noteq> None"
      by simp_all
    note k1 = func_ready_preserved [OF g u a1]
    show "gtoken_calls w' = gtoken_calls w"
    proof (cases "r1 = Inl SplatNetException")
      case True
      from k1 have "map_of (tokens m1) GTOKEN \<noteq> None" "nso_user_info (nso m1) \<noteq> None"
        by simp_all
      from func_ready_preserved [OF this second [OF True]] k1 show ?thesis by simp
    next
      case False
      with single k1 show ?thesis by simp
    qed
  qed
  from p1 p2 p3 p4 p5 show ?thesis by blast
qed

theorem generate_bullet_token_order_witness:
  "map_of (tokens (session_manager ''sess-abc'')) SESSION_TOKEN \<noteq> None
   \<and> map_of (tokens (session_manager ''sess-abc'')) GTOKEN = None
   \<and> gtoken_script default_env (gtoken_calls world_start) = Inr (''gtoken-new'', Some example_user_info)
   \<and> bullet_script default_env (bullet_calls world_start) = Inr ''bullet-new''
   \<and> fst (generate_bullet_token default_env (session_manager ''sess-abc'', world_start)) = Inr ()
   \<and> calls (snd (snd (generate_bullet_token default_env (session_manager ''sess-abc'', world_start))))
       = [GetGtoken (Some ''sess-abc''), GetBulletToken (Some ''gtoken-new'') (Some example_user_info)]"
proof -
  let ?run = "generate_bullet_token default_env (session_manager ''sess-abc'', world_start)"
  have eq: "?run = (fst ?run, fst (snd ?run), snd (snd ?run))" by simp
  have h: "map_of (tokens (session_manager ''sess-abc'')) SESSION_TOKEN \<noteq> None"
    "map_of (tokens (session_manager ''sess-abc'')) GTOKEN = None"
    "gtoken_script default_env (gtoken_calls world_start) = Inr (''gtoken-new'', Some example_user_info)"
    "bullet_script default_env (bullet_calls world_start) = Inr ''bullet-new''"
    "map_of example_user_info ''country'' \<noteq> None" "map_of example_user_info ''language'' \<noteq> None"
    by (simp_all add: session_manager_def default_env_def example_env_def world_start_def
        gtoken_calls_def bullet_calls_def example_user_info_def)
  from generate_bullet_token_order [OF eq] h
  have "fst ?run = Inr () \<and> calls (snd (snd ?run)) = calls world_start @
      [GetGtoken (nso_session_token (nso (session_manager ''sess-abc''))),
       GetBulletToken (Some ''gtoken-new'') (Some example_user_info)]"
    by blast
  then show ?thesis using h by (simp add: world_start_def session_manager_def)
qed

text \<open>
  C5 as stated fails where it asks for a non-empty session credential: only the
  presence of the entry is tested. With a session entry whose value is the empty string,
  \<^verbatim>\<open>generate_gtoken\<close> raises nothing and calls \<^verbatim>\<open>get_gtoken\<close> with the empty value.
\<close>

theorem empty_session_token_accepted_counterexample:
  "\<not> token_is_valid (session_manager '''') SESSION_TOKEN
   \<and> fst (generate_gtoken default_env (session_manager '''', world_start)) = Inr ()
   \<and> calls (snd (snd (generate_gtoken default_env (session_manager '''', world_start))))
       = [GetGtoken (Some '''')]"
  by (simp add: token_is_valid_def get_full_def is_valid_def session_manager_def Token_init_def
      generate_gtoken_def NSO_get_gtoken_def add_token_str_now default_env_def example_env_def
      world_start_def gtoken_calls_def example_user_info_def)

text \<open>
  C5, amended. Both derivations require a session entry in the keychain, whatever its
  value. Without one, \<^verbatim>\<open>generate_gtoken\<close> and \<^verbatim>\<open>generate_bullet_token\<close> raise
  \<^verbatim>\<open>ValueError\<close> with the manager unchanged and no call made. With one, the guard
  passes: \<^verbatim>\<open>generate_gtoken\<close> makes exactly the call \<^verbatim>\<open>get_gtoken\<close>, and
  \<^verbatim>\<open>generate_bullet_token\<close> makes at least one call.
\<close>

theorem derivation_requires_session_entry:
  "(map_of (tokens m) SESSION_TOKEN = None \<longrightarrow>
      generate_gtoken e (m, w) = (Inl ValueError, m, w) \<and>
      generate_bullet_token e (m, w) = (Inl ValueError, m, w))
   \<and> (map_of (tokens m) SESSION_TOKEN \<noteq> None \<longrightarrow>
      calls (snd (snd (generate_gtoken e (m, w)))) = calls w @ [GetGtoken (nso_session_token (nso m))] \<and>
      calls (snd (snd (generate_bullet_token e (m, w)))) \<noteq> calls w)"
proof (intro conjI impI)
  assume none: "map_of (tokens m) SESSION_TOKEN = None"
  then show "generate_gtoken e (m, w) = (Inl ValueError, m, w)"
    by (rule generate_gtoken_no_session)
  from none show "generate_bullet_token e (m, w) = (Inl ValueError, m, w)"
    by (simp add: generate_bullet_token_unfold func_no_session)
next
  assume "map_of (tokens m) SESSION_TOKEN \<noteq> None"
  then obtain st where sess: "map_of (tokens m) SESSION_TOKEN = Some st" by auto
  obtain r0 m0 w0 where gg: "generate_gtoken e (m, w) = (r0, m0, w0)"
    by (cases "generate_gtoken e (m, w)") auto
  from generate_gtoken_with_session [OF sess gg] gg
  show "calls (snd (snd (generate_gtoken e (m, w)))) = calls w @ [GetGtoken (nso_session_token (nso m))]"
    by simp
  obtain r1 m1 w1 where a1: "generate_bullet_token_func e (m, w) = (r1, m1, w1)"
    by (cases "generate_bullet_token_func e (m, w)") auto
  from func_calls_shape(2) [OF a1] sess obtain c cs where c1: "calls w1 = calls w @ c # cs"
    by (auto split: if_splits)
  show "calls (snd (snd (generate_bullet_token e (m, w)))) \<noteq> calls w"
  proof (cases "r1 = Inl SplatNetException")
    case True
    obtain r2 m2 w2 where a2: "generate_bullet_token_func e (m1, w1) = (r2, m2, w2)"
      by (cases "generate_bullet_token_func e (m1, w1)") auto
    from func_calls_prefix [OF a2] obtain cs2 where "calls w2 = calls w1 @ cs2" by auto
    with c1 a1 a2 True show ?thesis by (simp add: generate_bullet_token_unfold)
  next
    case False
    with a1 c1 show ?thesis
      by (auto simp add: generate_bullet_token_unfold split: sum.splits)
  qed
qed

theorem derivation_requires_session_entry_witness:
  "map_of (tokens (TokenManager_init NSO_new_instance)) SESSION_TOKEN = None
   \<and> generate_gtoken default_env (TokenManager_init NSO_new_instance, world_start)
       = (Inl ValueError, TokenManager_init NSO_new_instance, world_start)
   \<and> generate_bullet_token default_env (TokenManager_init NSO_new_instance, world_start)
       = (Inl ValueError, TokenManager_init NSO_new_instance, world_start)
   \<and> map_of (tokens (session_manager '''')) SESSION_TOKEN \<noteq> None
   \<and> calls (snd (snd (generate_gtoken default_env (session_manager '''', world_start))))
       = [GetGtoken (Some '''')]"
  using derivation_requires_session_entry [of "TokenManager_init NSO_new_instance" default_env world_start]
    derivation_requires_session_entry [of "session_manager ''''" default_env world_start]
  by (simp add: TokenManager_init_def session_manager_def world_start_def)

section \<open>Config files: loading and the round trip\<close>




















end
